theory Spec2Isabelle
  imports Main "HOL-Library.Sublist"
begin

section \<open>Python string operations used by server.py\<close>

text \<open>
  Python \<open>str\<close> values are modelled as \<^typ>\<open>string\<close>. The case mappings and the
  whitespace test are the ASCII part of Python's: characters above 127 are carried through
  unchanged and are not whitespace.
\<close>

definition isspace :: "char \<Rightarrow> bool" where
  "isspace c = (c \<in> set [CHR 0x09, CHR 0x0A, CHR 0x0B, CHR 0x0C, CHR 0x0D,
                           CHR 0x1C, CHR 0x1D, CHR 0x1E, CHR 0x1F, CHR 0x20])"

definition strip :: "string \<Rightarrow> string" where
  "strip s = rev (dropWhile isspace (rev (dropWhile isspace s)))"

definition rstrip_char :: "char \<Rightarrow> string \<Rightarrow> string" where
  "rstrip_char c s = rev (dropWhile (\<lambda>x. x = c) (rev s))"

definition ascii_uppercase :: string where
  "ascii_uppercase = ''ABCDEFGHIJKLMNOPQRSTUVWXYZ''"

definition ascii_lowercase :: string where
  "ascii_lowercase = ''abcdefghijklmnopqrstuvwxyz''"

definition lower_char :: "char \<Rightarrow> char" where
  "lower_char c = (case map_of (zip ascii_uppercase ascii_lowercase) c of None \<Rightarrow> c | Some l \<Rightarrow> l)"

definition upper_char :: "char \<Rightarrow> char" where
  "upper_char c = (case map_of (zip ascii_lowercase ascii_uppercase) c of None \<Rightarrow> c | Some u \<Rightarrow> u)"

definition lower :: "string \<Rightarrow> string" where
  "lower s = map lower_char s"

definition upper :: "string \<Rightarrow> string" where
  "upper s = map upper_char s"

definition endswith :: "string \<Rightarrow> string \<Rightarrow> bool" where
  "endswith s suf = (length suf \<le> length s \<and> drop (length s - length suf) s = suf)"

text \<open>\<open>s.replace(old, new)\<close> for a pattern \<open>old\<close> of exactly one character.\<close>

definition replace :: "char \<Rightarrow> string \<Rightarrow> string \<Rightarrow> string" where
  "replace old new s = concat (map (\<lambda>c. if c = old then new else [c]) s)"

text \<open>\<open>str(n)\<close> for an integer, as \<open>"{}".format(n)\<close> prints it.\<close>

definition digit :: "nat \<Rightarrow> char" where
  "digit d = ''0123456789'' ! d"

fun str_nat :: "nat \<Rightarrow> string" where
  "str_nat n = (if n < 10 then [digit n] else str_nat (n div 10) @ [digit (n mod 10)])"

declare str_nat.simps [simp del]

definition str_int :: "int \<Rightarrow> string" where
  "str_int i = (if i < 0 then CHR ''-'' # str_nat (nat (- i)) else str_nat (nat i))"

text \<open>\<open>"{}".format(v)\<close> for a value that is a string or \<open>None\<close>.\<close>

definition str_opt :: "string option \<Rightarrow> string" where
  "str_opt v = (case v of None \<Rightarrow> ''None'' | Some s \<Rightarrow> s)"

text \<open>\<open>os.path.join(a, b)\<close> of posixpath, for two components.\<close>

definition os_path_join :: "string \<Rightarrow> string \<Rightarrow> string" where
  "os_path_join a b =
     (if take 1 b = ''/'' then b
      else if a = [] \<or> last a = CHR ''/'' then a @ b
      else a @ ''/'' @ b)"

section \<open>Data model\<close>

text \<open>The decision event appended by \<open>respond_form\<close> (a dict with these six keys).\<close>

record event =
  ts_utc :: string
  decision :: string
  comment :: string
  viewer_name :: string
  viewer_email :: string
  ip :: "string option"

text \<open>The submission record written by the upload handlers (a dict with these six keys).\<close>

record proof_record =
  token :: string
  original_name :: string
  stored_name :: string
  created_utc :: string
  status :: string
  responses :: "event list"

text \<open>The module-level configuration constants.\<close>

record config =
  SMTP_HOST :: string
  SMTP_PORT :: int
  SMTP_TIMEOUT :: int
  EMAIL_MODE :: string
  BASE_URL_OVERRIDE :: string
  BASE_DIR :: string

definition UPLOAD_DIR :: "config \<Rightarrow> string" where
  "UPLOAD_DIR cfg = os_path_join (BASE_DIR cfg) ''uploads''"

definition DATA_DIR :: "config \<Rightarrow> string" where
  "DATA_DIR cfg = os_path_join (BASE_DIR cfg) ''data''"

text \<open>An uploaded file part (\<open>request.files["file"]\<close>).\<close>

record file_storage =
  filename :: string
  content :: string

text \<open>The part of the Flask request the handlers read.\<close>

record request =
  host_url :: string
  form :: "string \<rightharpoonup> string"
  files :: "string \<rightharpoonup> file_storage"
  headers :: "string \<rightharpoonup> string"
  remote_addr :: "string option"

text \<open>What \<open>send_email\<close> does when it is run: it returns, or raises with a message.\<close>

datatype send_result = Sent | Raised string

text \<open>
  What one handler call reads from outside the program: the clock, the random UUID, whether
  \<open>file.save\<close> raises, what \<open>send_email\<close> does and whether the worker finishes within
  \<open>SMTP_TIMEOUT\<close> seconds.
\<close>

record env =
  utcnow_isoformat :: string
  uuid4_hex :: string
  file_save_raises :: bool
  send_email_result :: send_result
  finished_in_time :: bool

text \<open>The effects a handler has on the outside, in the order they happen.\<close>

datatype effect =
  SaveFile string
  | SaveRecord string proof_record
  | SendEmail string string string

text \<open>
  The state outside a handler call: the JSON documents under \<open>DATA_DIR\<close> by path (each
  document held as the record \<open>json.load\<close> reads from it), the uploaded files by path, and
  the trace of effects so far.
\<close>

record world =
  records :: "string \<rightharpoonup> proof_record"
  blobs :: "string \<rightharpoonup> string"
  trace :: "effect list"

section \<open>Record store\<close>

definition record_path :: "config \<Rightarrow> string \<Rightarrow> string" where
  "record_path cfg tok = os_path_join (DATA_DIR cfg) (tok @ ''.json'')"

definition save_record :: "config \<Rightarrow> string \<Rightarrow> proof_record \<Rightarrow> world \<Rightarrow> world" where
  "save_record cfg tok r w =
     w\<lparr>records := (records w)(record_path cfg tok \<mapsto> r),
       trace := trace w @ [SaveRecord (record_path cfg tok) r]\<rparr>"

definition load_record :: "config \<Rightarrow> string \<Rightarrow> world \<Rightarrow> proof_record option" where
  "load_record cfg tok w =
     (let path = record_path cfg tok
      in if records w path = None then None else records w path)"

section \<open>Links and the notification message\<close>

definition base_url :: "config \<Rightarrow> request \<Rightarrow> string" where
  "base_url cfg req =
     (if BASE_URL_OVERRIDE cfg \<noteq> [] then BASE_URL_OVERRIDE cfg
      else rstrip_char CHR ''/''
             (if host_url req \<noteq> [] then host_url req else ''http://127.0.0.1:5000/''))"

definition email_body ::
  "config \<Rightarrow> request \<Rightarrow> proof_record \<Rightarrow> string \<Rightarrow> event \<Rightarrow> string \<times> string \<times> string" where
  "email_body cfg req r dec ev =
     (let proof_url = base_url cfg req @ ''/proof/'' @ token r;
          subject = ''[Proof] '' @ original_name r @ '' -- '' @ upper dec;
          text = ''Proof decision received.'' @ [CHR 0x0A, CHR 0x0A]
               @ ''File: '' @ original_name r @ [CHR 0x0A]
               @ ''Link: '' @ proof_url @ [CHR 0x0A]
               @ ''Decision: '' @ dec @ [CHR 0x0A]
               @ ''Name: '' @ viewer_name ev @ [CHR 0x0A]
               @ ''Email: '' @ viewer_email ev @ [CHR 0x0A]
               @ ''Comment:'' @ [CHR 0x0A] @ comment ev @ [CHR 0x0A, CHR 0x0A]
               @ ''Time (UTC): '' @ ts_utc ev @ [CHR 0x0A]
               @ ''IP: '' @ str_opt (ip ev) @ [CHR 0x0A];
          html = ''<h2>Proof decision received</h2>''
               @ ''<p><b>File:</b> '' @ original_name r @ ''</p>''
               @ ''<p><b>Link:</b> <a href='' @ [CHR 0x27] @ proof_url @ [CHR 0x27] @ ''>''
                   @ proof_url @ ''</a></p>''
               @ ''<p><b>Decision:</b> '' @ dec @ ''</p>''
               @ ''<p><b>Name:</b> '' @ viewer_name ev @ '' &lt;'' @ viewer_email ev @ ''&gt;</p>''
               @ ''<p><b>Comment:</b><br>'' @ replace (CHR 0x0A) ''<br>'' (comment ev) @ ''</p>''
               @ ''<p><small>Time (UTC): '' @ ts_utc ev @ '' | IP: '' @ str_opt (ip ev)
                   @ ''</small></p>''
      in (subject, html, text))"

section \<open>Decision submission\<close>

text \<open>The keyword arguments \<open>respond_form\<close> passes to \<open>result.html\<close>.\<close>

record result_page =
  ok :: bool
  message :: string
  warning :: "string option"
  page_token :: string
  page_original_name :: string

definition form_get :: "request \<Rightarrow> string \<Rightarrow> string" where
  "form_get req k = (case form req k of None \<Rightarrow> [] | Some v \<Rightarrow> v)"

text \<open>Lines 232 to 249 of \<open>respond_form\<close>: the warning and the send that is attempted.\<close>

definition send_failed :: "config \<Rightarrow> string \<Rightarrow> string" where
  "send_failed cfg e =
     ''Email send failed ('' @ SMTP_HOST cfg @ '':'' @ str_int (SMTP_PORT cfg) @ ''): '' @ e"

definition notify ::
  "config \<Rightarrow> request \<Rightarrow> env \<Rightarrow> proof_record \<Rightarrow> string \<Rightarrow> event \<Rightarrow> world \<Rightarrow> string \<times> world" where
  "notify cfg req en r dec ev w =
     (if EMAIL_MODE cfg = ''off'' then ([], w)
      else
        (case email_body cfg req r dec ev of (subj, html, text) \<Rightarrow>
           let w' = w\<lparr>trace := trace w @ [SendEmail subj html text]\<rparr>
           in if EMAIL_MODE cfg = ''sync'' then
                (case send_email_result en of
                   Sent \<Rightarrow> ([], w')
                 | Raised e \<Rightarrow> (send_failed cfg e, w'))
              else if \<not> finished_in_time en then
                (''Email is sending in background (timeout '' @ str_int (SMTP_TIMEOUT cfg)
                   @ ''s).'', w')
              else
                (case send_email_result en of
                   Sent \<Rightarrow> ([], w')
                 | Raised e \<Rightarrow> (send_failed cfg e, w'))))"

definition respond_form ::
  "config \<Rightarrow> request \<Rightarrow> env \<Rightarrow> string \<Rightarrow> world \<Rightarrow> result_page \<times> world" where
  "respond_form cfg req en tok w =
     (case load_record cfg tok w of
        None \<Rightarrow>
          (\<lparr>ok = False, message = ''This proof link was not found.'', warning = None,
            page_token = tok, page_original_name = []\<rparr>, w)
      | Some r \<Rightarrow>
          let dec = lower (form_get req ''decision'');
              com = strip (form_get req ''comment'');
              vname = strip (form_get req ''viewer_name'');
              vemail = strip (form_get req ''viewer_email'')
          in if dec \<notin> set [''approved'', ''rejected''] then
               (\<lparr>ok = False, message = ''Invalid decision.'', warning = None,
                 page_token = tok, page_original_name = original_name r\<rparr>, w)
             else if dec = ''rejected'' \<and> com = [] then
               (\<lparr>ok = False, message = ''Please add a comment when rejecting.'', warning = None,
                 page_token = tok, page_original_name = original_name r\<rparr>, w)
             else
               let addr = (case headers req ''X-Forwarded-For'' of
                             Some h \<Rightarrow> Some h | None \<Rightarrow> remote_addr req);
                   ev = \<lparr>ts_utc = utcnow_isoformat en @ ''Z'', decision = dec, comment = com,
                         viewer_name = vname, viewer_email = vemail, ip = addr\<rparr>;
                   r' = r\<lparr>status := dec, responses := responses r @ [ev]\<rparr>;
                   w1 = save_record cfg tok r' w
               in (case notify cfg req en r' dec ev w1 of (warn, w2) \<Rightarrow>
                     (\<lparr>ok = True, message = ''Thank you. Your decision was recorded.'',
                       warning = Some warn, page_token = tok,
                       page_original_name = original_name r'\<rparr>, w2)))"

section \<open>Upload handlers\<close>

text \<open>
  What an upload handler answers: the refusal of a file that is not a PDF (with its message),
  the link and token of a stored upload, or the exception \<open>file.save\<close> raised.
\<close>

datatype upload_response =
  Upload_refused string
  | Upload_ok string string
  | Upload_raised

text \<open>The local variables \<open>safe_name\<close>, \<open>token_dir\<close> and \<open>pdf_path\<close> of both handlers.\<close>

definition safe_name :: "string \<Rightarrow> string" where
  "safe_name name = replace (CHR 0x5C) ''_'' (replace CHR ''/'' ''_'' name)"

definition token_dir :: "config \<Rightarrow> string \<Rightarrow> string" where
  "token_dir cfg tok = os_path_join (UPLOAD_DIR cfg) tok"

definition pdf_path :: "config \<Rightarrow> string \<Rightarrow> string \<Rightarrow> string" where
  "pdf_path cfg tok name = os_path_join (token_dir cfg tok) (safe_name name)"

text \<open>
  The common tail of \<open>upload_post\<close> and \<open>api_upload\<close> once the file part \<open>f\<close> is accepted
  and \<open>original_name\<close> is chosen: save the file, write the initial record, build the link.
\<close>

definition store_upload ::
  "config \<Rightarrow> request \<Rightarrow> env \<Rightarrow> file_storage \<Rightarrow> string \<Rightarrow> world \<Rightarrow> upload_response \<times> world" where
  "store_upload cfg req en f name w =
     (let tok = take 12 (uuid4_hex en);
          path = pdf_path cfg tok name
      in if file_save_raises en then (Upload_raised, w)
         else
           let w1 = w\<lparr>blobs := (blobs w)(path \<mapsto> content f),
                      trace := trace w @ [SaveFile path]\<rparr>;
               r = \<lparr>token = tok, original_name = name, stored_name = safe_name name,
                    created_utc = utcnow_isoformat en @ ''Z'', status = ''pending'',
                    responses = []\<rparr>;
               w2 = save_record cfg tok r w1
           in (Upload_ok tok (base_url cfg req @ ''/proof/'' @ tok), w2))"

definition upload_post :: "config \<Rightarrow> request \<Rightarrow> env \<Rightarrow> world \<Rightarrow> upload_response \<times> world" where
  "upload_post cfg req en w =
     (case files req ''file'' of
        None \<Rightarrow> (Upload_refused ''Please choose a .pdf file.'', w)
      | Some f \<Rightarrow>
          if filename f = [] then (Upload_refused ''Please choose a .pdf file.'', w)
          else if \<not> endswith (lower (filename f)) ''.pdf'' then
            (Upload_refused ''Please choose a .pdf file.'', w)
          else store_upload cfg req en f (filename f) w)"

definition api_upload :: "config \<Rightarrow> request \<Rightarrow> env \<Rightarrow> world \<Rightarrow> upload_response \<times> world" where
  "api_upload cfg req en w =
     (case files req ''file'' of
        None \<Rightarrow> (Upload_refused ''Please upload a .pdf file'', w)
      | Some f \<Rightarrow>
          if filename f = [] then (Upload_refused ''Please upload a .pdf file'', w)
          else if \<not> endswith (lower (filename f)) ''.pdf'' then
            (Upload_refused ''Please upload a .pdf file'', w)
          else
            store_upload cfg req en f
              (case form req ''original_name'' of None \<Rightarrow> filename f | Some n \<Rightarrow> n) w)"

section \<open>Reachable states\<close>

definition init_world :: world where
  "init_world = \<lparr>records = Map.empty, blobs = Map.empty, trace = []\<rparr>"

text \<open>
  The worlds the public operations produce from an empty data directory. The GET handlers
  (\<open>proof_page\<close>, \<open>serve_pdf\<close>, \<open>index\<close>, \<open>healthz\<close>, \<open>routes\<close>) write nothing.
\<close>

inductive reachable :: "config \<Rightarrow> world \<Rightarrow> bool" for cfg :: config where
  reach_init: "reachable cfg init_world"
| reach_upload_post: "reachable cfg w \<Longrightarrow> reachable cfg (snd (upload_post cfg req en w))"
| reach_api_upload: "reachable cfg w \<Longrightarrow> reachable cfg (snd (api_upload cfg req en w))"
| reach_respond_form: "reachable cfg w \<Longrightarrow> reachable cfg (snd (respond_form cfg req en tok w))"
section \<open>Notions used to state the properties\<close>

text \<open>The status a history of responses determines.\<close>

definition derived_status :: "event list \<Rightarrow> string" where
  "derived_status evs = (if evs = [] then ''pending'' else decision (last evs))"

text \<open>Every stored record has the status its history determines.\<close>

definition store_inv :: "world \<Rightarrow> bool" where
  "store_inv w = (\<forall>p r. records w p = Some r \<longrightarrow> status r = derived_status (responses r))"

text \<open>
  The two checks of \<open>respond_form\<close> (lines 212 and 215) both pass; the event it then builds
  (lines 219 to 227) and the record it saves (lines 228 to 230).
\<close>

definition accepted :: "request \<Rightarrow> bool" where
  "accepted req =
     (lower (form_get req ''decision'') = ''approved'' \<or>
      lower (form_get req ''decision'') = ''rejected'' \<and> strip (form_get req ''comment'') \<noteq> [])"

definition new_event :: "request \<Rightarrow> env \<Rightarrow> event" where
  "new_event req en =
     \<lparr>ts_utc = utcnow_isoformat en @ ''Z'', decision = lower (form_get req ''decision''),
      comment = strip (form_get req ''comment''),
      viewer_name = strip (form_get req ''viewer_name''),
      viewer_email = strip (form_get req ''viewer_email''),
      ip = (case headers req ''X-Forwarded-For'' of Some h \<Rightarrow> Some h | None \<Rightarrow> remote_addr req)\<rparr>"

definition decided :: "request \<Rightarrow> env \<Rightarrow> proof_record \<Rightarrow> proof_record" where
  "decided req en r =
     r\<lparr>status := lower (form_get req ''decision''),
       responses := responses r @ [new_event req en]\<rparr>"

text \<open>
  A path lies directly inside a directory when it is the directory, one separator and one
  file name: a name without a separator that is not empty and is neither \<open>.\<close> nor \<open>..\<close>,
  the names of the directory itself and of its parent.
\<close>

definition directly_inside :: "string \<Rightarrow> string \<Rightarrow> bool" where
  "directly_inside dir path =
     (take (length dir + 1) path = dir @ ''/'' \<and>
      drop (length dir + 1) path \<notin> set [[], ''.'', ''..''] \<and>
      CHR ''/'' \<notin> set (drop (length dir + 1) path))"

section \<open>A concrete run\<close>

text \<open>
  One deployment, one upload and the requests sent to it; the theorems below are exercised
  on this run.
\<close>

definition cfg0 :: config where
  "cfg0 = \<lparr>SMTP_HOST = ''smtp.example.com'', SMTP_PORT = 587, SMTP_TIMEOUT = 10,
           EMAIL_MODE = ''async'', BASE_URL_OVERRIDE = [], BASE_DIR = ''/srv/app''\<rparr>"

definition cfg_off :: config where
  "cfg_off = cfg0\<lparr>EMAIL_MODE := ''off''\<rparr>"

definition upload_req0 :: request where
  "upload_req0 = \<lparr>host_url = ''http://proofs.example/'', form = Map.empty,
     files = [''file'' \<mapsto> \<lparr>filename = ''Order 7.PDF'', content = ''%PDF''\<rparr>],
     headers = Map.empty, remote_addr = Some ''10.0.0.7''\<rparr>"

definition other_req0 :: request where
  "other_req0 = upload_req0\<lparr>host_url := ''http://mirror.example/''\<rparr>"

definition dots_req0 :: request where
  "dots_req0 = upload_req0\<lparr>form := [''original_name'' \<mapsto> ''..'']\<rparr>"

definition env0 :: env where
  "env0 = \<lparr>utcnow_isoformat = ''2024-05-01T10:00:00'',
            uuid4_hex = ''0123456789abcdef0123456789abcdef'',
            file_save_raises = False, send_email_result = Sent, finished_in_time = True\<rparr>"

definition env_slow :: env where
  "env_slow = env0\<lparr>finished_in_time := False\<rparr>"

definition respond_req0 :: "string \<Rightarrow> string \<Rightarrow> request" where
  "respond_req0 d c = \<lparr>host_url = ''http://proofs.example/'',
     form = [''decision'' \<mapsto> d, ''comment'' \<mapsto> c, ''viewer_name'' \<mapsto> '' Ann '',
             ''viewer_email'' \<mapsto> ''ann@example.com''],
     files = Map.empty, headers = Map.empty, remote_addr = Some ''10.0.0.7''\<rparr>"

definition tok0 :: string where
  "tok0 = ''0123456789ab''"

definition rec0 :: proof_record where
  "rec0 = \<lparr>token = ''0123456789ab'', original_name = ''Order 7.PDF'',
            stored_name = ''Order 7.PDF'', created_utc = ''2024-05-01T10:00:00Z'',
            status = ''pending'', responses = []\<rparr>"

definition ev0 :: event where
  "ev0 = \<lparr>ts_utc = ''2024-05-01T10:00:00Z'', decision = ''rejected'',
           comment = ''too dark\<newline>wrong logo'', viewer_name = ''Ann'',
           viewer_email = ''ann@example.com'', ip = Some ''10.0.0.7''\<rparr>"

definition reject_req0 :: request where
  "reject_req0 = respond_req0 ''Rejected'' ('' too dark\<newline>wrong logo '')"

definition world1 :: world where
  "world1 = snd (upload_post cfg0 upload_req0 env0 init_world)"

definition world2 :: world where
  "world2 = snd (respond_form cfg0 reject_req0 env0 tok0 world1)"

definition env_fail :: env where
  "env_fail = env0\<lparr>send_email_result := Raised ''[Errno 111] Connection refused''\<rparr>"

section \<open>Evaluation of the string operations\<close>

lemmas str_defs =
  lower_def lower_char_def upper_def upper_char_def ascii_uppercase_def ascii_lowercase_def
  strip_def isspace_def rstrip_char_def endswith_def replace_def str_opt_def

lemma lower_approved [simp]: "lower ''approved'' = ''approved''"
  by (simp add: str_defs)

lemma lower_rejected [simp]: "lower ''rejected'' = ''rejected''"
  by (simp add: str_defs)

lemma record_path_tok0: "record_path cfg0 tok0 = ''/srv/app/data/0123456789ab.json''"
  by (simp add: record_path_def DATA_DIR_def os_path_join_def cfg0_def tok0_def)

lemma sublist_skip: "sublist xs zs \<Longrightarrow> sublist xs (ys @ zs)"
  by (metis append.assoc sublist_def)

lemma replace_no_old: "old \<notin> set new \<Longrightarrow> old \<notin> set (replace old new s)"
  by (induction s) (auto simp add: replace_def)

section \<open>The record store\<close>

lemma load_record_eq: "load_record cfg tok w = records w (record_path cfg tok)"
  by (simp add: load_record_def Let_def)

lemma load_save_same: "load_record cfg tok (save_record cfg tok r w) = Some r"
  by (simp add: load_record_eq save_record_def)

lemma load_save_other:
  "record_path cfg tok' \<noteq> record_path cfg tok \<Longrightarrow>
   load_record cfg tok' (save_record cfg tok r w) = load_record cfg tok' w"
  by (simp add: load_record_eq save_record_def)

section \<open>The notification step\<close>

lemma notify_records: "records (snd (notify cfg req en r dec ev w)) = records w"
  by (simp add: notify_def Let_def case_prod_beta split: send_result.splits)

lemma notify_blobs: "blobs (snd (notify cfg req en r dec ev w)) = blobs w"
  by (simp add: notify_def Let_def case_prod_beta split: send_result.splits)

lemma load_notify:
  "load_record cfg tok (snd (notify cfg' req en r dec ev w)) = load_record cfg tok w"
  by (simp add: load_record_eq notify_records)

lemma notify_off: "EMAIL_MODE cfg = ''off'' \<Longrightarrow> notify cfg req en r dec ev w = ([], w)"
  by (simp add: notify_def)

lemma notify_trace:
  "EMAIL_MODE cfg \<noteq> ''off'' \<Longrightarrow>
   trace (snd (notify cfg req en r dec ev w)) =
     trace w @ [SendEmail (fst (email_body cfg req r dec ev))
                  (fst (snd (email_body cfg req r dec ev)))
                  (snd (snd (email_body cfg req r dec ev)))]"
  by (simp add: notify_def Let_def case_prod_beta split: send_result.splits)

lemma notify_timeout:
  "EMAIL_MODE cfg \<noteq> ''off'' \<Longrightarrow> EMAIL_MODE cfg \<noteq> ''sync'' \<Longrightarrow> \<not> finished_in_time en \<Longrightarrow>
   fst (notify cfg req en r dec ev w) =
     ''Email is sending in background (timeout '' @ str_int (SMTP_TIMEOUT cfg) @ ''s).''"
  by (simp add: notify_def Let_def case_prod_beta)

lemma notify_raised:
  "EMAIL_MODE cfg \<noteq> ''off'' \<Longrightarrow> EMAIL_MODE cfg = ''sync'' \<or> finished_in_time en \<Longrightarrow>
   send_email_result en = Raised e \<Longrightarrow>
   fst (notify cfg req en r dec ev w) = send_failed cfg e"
  by (auto simp add: notify_def Let_def case_prod_beta)

lemma send_failed_nonempty: "send_failed cfg e \<noteq> []"
  by (simp add: send_failed_def)

section \<open>The branches of respond_form\<close>

lemma respond_form_not_found:
  "load_record cfg tok w = None \<Longrightarrow>
   respond_form cfg req en tok w =
     (\<lparr>ok = False, message = ''This proof link was not found.'', warning = None,
       page_token = tok, page_original_name = []\<rparr>, w)"
  by (simp add: respond_form_def)

lemma respond_form_invalid:
  "load_record cfg tok w = Some r \<Longrightarrow>
   lower (form_get req ''decision'') \<noteq> ''approved'' \<Longrightarrow>
   lower (form_get req ''decision'') \<noteq> ''rejected'' \<Longrightarrow>
   respond_form cfg req en tok w =
     (\<lparr>ok = False, message = ''Invalid decision.'', warning = None,
       page_token = tok, page_original_name = original_name r\<rparr>, w)"
  by (simp add: respond_form_def Let_def)

lemma respond_form_comment_required:
  "load_record cfg tok w = Some r \<Longrightarrow>
   lower (form_get req ''decision'') = ''rejected'' \<Longrightarrow>
   strip (form_get req ''comment'') = [] \<Longrightarrow>
   respond_form cfg req en tok w =
     (\<lparr>ok = False, message = ''Please add a comment when rejecting.'', warning = None,
       page_token = tok, page_original_name = original_name r\<rparr>, w)"
  by (simp add: respond_form_def Let_def)

lemma respond_form_refused:
  "load_record cfg tok w = Some r \<Longrightarrow> \<not> accepted req \<Longrightarrow>
   \<not> ok (fst (respond_form cfg req en tok w)) \<and> snd (respond_form cfg req en tok w) = w"
  by (auto simp add: respond_form_def Let_def accepted_def)

lemma respond_form_accepted:
  assumes "load_record cfg tok w = Some r" and "accepted req"
  shows "respond_form cfg req en tok w =
     (\<lparr>ok = True, message = ''Thank you. Your decision was recorded.'',
       warning = Some (fst (notify cfg req en (decided req en r)
                        (lower (form_get req ''decision'')) (new_event req en)
                        (save_record cfg tok (decided req en r) w))),
       page_token = tok, page_original_name = original_name r\<rparr>,
      snd (notify cfg req en (decided req en r) (lower (form_get req ''decision''))
             (new_event req en) (save_record cfg tok (decided req en r) w)))"
  using assms
  by (auto simp add: respond_form_def Let_def case_prod_beta accepted_def decided_def
      new_event_def)

lemma load_respond_form_accepted:
  assumes "load_record cfg tok w = Some r" and "accepted req"
  shows "load_record cfg tok (snd (respond_form cfg req en tok w)) = Some (decided req en r)"
  by (simp add: respond_form_accepted [OF assms] load_notify load_save_same)

lemma accepted_exact:
  assumes "form req ''decision'' = Some d"
    and "d = ''approved'' \<or> d = ''rejected'' \<and> strip (form_get req ''comment'') \<noteq> []"
  shows "accepted req" and "lower (form_get req ''decision'') = d"
  using assms by (auto simp add: accepted_def form_get_def)

section \<open>The invariant of the store\<close>

lemma store_inv_init: "store_inv init_world"
  by (simp add: store_inv_def init_world_def)

lemma store_inv_save:
  "store_inv w \<Longrightarrow> status r = derived_status (responses r) \<Longrightarrow>
   store_inv (save_record cfg tok r w)"
  by (simp add: store_inv_def save_record_def)

lemma store_inv_notify: "store_inv w \<Longrightarrow> store_inv (snd (notify cfg req en r dec ev w))"
  by (simp add: store_inv_def notify_records)

lemma store_inv_store_upload:
  "store_inv w \<Longrightarrow> store_inv (snd (store_upload cfg req en f name w))"
  by (simp add: store_upload_def Let_def store_inv_def save_record_def derived_status_def)

lemma store_inv_upload_post: "store_inv w \<Longrightarrow> store_inv (snd (upload_post cfg req en w))"
  by (simp add: upload_post_def store_inv_store_upload split: option.splits)

lemma store_inv_api_upload: "store_inv w \<Longrightarrow> store_inv (snd (api_upload cfg req en w))"
  by (simp add: api_upload_def store_inv_store_upload split: option.splits)

lemma store_inv_respond_form:
  assumes "store_inv w"
  shows "store_inv (snd (respond_form cfg req en tok w))"
proof (cases "load_record cfg tok w")
  case None
  with assms show ?thesis by (simp add: respond_form_def)
next
  case (Some r)
  with assms show ?thesis
    by (simp add: respond_form_def Let_def case_prod_beta store_inv_notify
        store_inv_save derived_status_def)
qed

lemma reachable_store_inv: "reachable cfg w \<Longrightarrow> store_inv w"
  by (induction rule: reachable.induct)
    (simp_all add: store_inv_init store_inv_upload_post store_inv_api_upload
      store_inv_respond_form)

section \<open>The concrete run\<close>

lemma world1_reachable: "reachable cfg0 world1"
  unfolding world1_def by (intro reachable.intros)

lemma world2_reachable: "reachable cfg0 world2"
  unfolding world2_def by (intro reachable.intros world1_reachable)

lemma load_world1: "load_record cfg0 tok0 world1 = Some rec0"
  by (simp add: load_record_def record_path_tok0 world1_def upload_post_def upload_req0_def
      str_defs store_upload_def Let_def env0_def save_record_def
      record_path_tok0 [unfolded tok0_def] init_world_def rec0_def safe_name_def)

lemma form_respond_req0:
  "form (respond_req0 d c) ''decision'' = Some d"
  "form_get (respond_req0 d c) ''decision'' = d"
  "form_get (respond_req0 d c) ''comment'' = c"
  "form_get (respond_req0 d c) ''viewer_name'' = '' Ann ''"
  "form_get (respond_req0 d c) ''viewer_email'' = ''ann@example.com''"
  "headers (respond_req0 d c) ''X-Forwarded-For'' = None"
  "remote_addr (respond_req0 d c) = Some ''10.0.0.7''"
  by (simp_all add: respond_req0_def form_get_def)

lemma strip_examples:
  "strip [] = []" "strip ''   '' = []" "strip '' Ann '' = ''Ann''"
  "strip ''ann@example.com'' = ''ann@example.com''" "strip ''fine'' = ''fine''"
  "strip ('' too dark\<newline>wrong logo '') = ''too dark\<newline>wrong logo''"
  by (simp_all add: strip_def isspace_def)

lemma lower_examples:
  "lower ''APPROVED'' = ''approved''" "lower ''Rejected'' = ''rejected''"
  "lower ''maybe'' = ''maybe''" "lower [] = []"
  by (simp_all add: str_defs)

lemma new_event_reject_req0: "new_event reject_req0 env0 = ev0"
  by (simp add: new_event_def reject_req0_def form_respond_req0 strip_examples lower_examples
      env0_def ev0_def)

lemma accepted_reject_req0: "accepted reject_req0"
  by (simp add: accepted_def reject_req0_def form_respond_req0 strip_examples lower_examples)

lemma load_world2:
  "load_record cfg0 tok0 world2 = Some (rec0\<lparr>status := ''rejected'', responses := [ev0]\<rparr>)"
  unfolding world2_def
  by (simp add: load_respond_form_accepted [OF load_world1 accepted_reject_req0] decided_def
      new_event_reject_req0 rec0_def)
     (simp add: reject_req0_def form_respond_req0 lower_examples)

lemma load_world1_off: "load_record cfg_off tok0 world1 = Some rec0"
  using load_world1
  by (simp add: load_record_eq record_path_def DATA_DIR_def cfg_off_def)

lemma load_world1_unknown: "load_record cfg0 ''ffffffffffff'' world1 = None"
  by (simp add: load_record_eq record_path_def DATA_DIR_def os_path_join_def cfg0_def
      world1_def upload_post_def upload_req0_def str_defs store_upload_def Let_def env0_def
      save_record_def init_world_def)

lemma str_int_examples: "str_int 10 = ''10''" "str_int 587 = ''587''"
  by (simp_all add: str_int_def str_nat.simps digit_def)

section \<open>Status and history\<close>

text \<open>
  C1. Start from an empty data directory and apply the public operations in any order and
  with any inputs: the two upload handlers, which write a record with status \<open>pending\<close> and
  no responses, and decision submission. Every record the store then returns has as its
  status the decision of the last element of its responses, or \<open>pending\<close> when it has no
  response; no operation leaves the status at any other value.
\<close>

theorem C1_status_follows_history:
  assumes "reachable cfg w" and "load_record cfg tok w = Some r"
  shows "status r = (if responses r = [] then ''pending'' else decision (last (responses r)))"
proof -
  from assms(1) have "store_inv w" by (rule reachable_store_inv)
  moreover from assms(2) have "records w (record_path cfg tok) = Some r"
    by (simp add: load_record_eq)
  ultimately show ?thesis by (simp add: store_inv_def derived_status_def)
qed

theorem C1_status_follows_history_witness:
  "reachable cfg0 world2 \<and>
   load_record cfg0 tok0 world2 = Some (rec0\<lparr>status := ''rejected'', responses := [ev0]\<rparr>) \<and>
   status (rec0\<lparr>status := ''rejected'', responses := [ev0]\<rparr>) = decision ev0"
  using C1_status_follows_history [OF world2_reachable load_world2] world2_reachable load_world2
  by simp

section \<open>Accepted submissions\<close>

text \<open>
  C2. For an existing record and a valid submission (the decision is \<open>approved\<close> or
  \<open>rejected\<close>, and the trimmed comment is not empty when it is \<open>rejected\<close>),
  \<open>respond_form\<close> succeeds, appends exactly one event carrying that decision to the
  responses and sets the status to that decision. A second valid submission for the same
  token succeeds as well: the record then holds both events in order, two responses when it
  had none before, and its status is the second decision.
\<close>

theorem C2_decision_appended:
  assumes "load_record cfg tok w = Some r"
    and "form req1 ''decision'' = Some d1"
    and "d1 = ''approved'' \<or> d1 = ''rejected'' \<and> strip (form_get req1 ''comment'') \<noteq> []"
    and "form req2 ''decision'' = Some d2"
    and "d2 = ''approved'' \<or> d2 = ''rejected'' \<and> strip (form_get req2 ''comment'') \<noteq> []"
    and "respond_form cfg req1 en1 tok w = (page1, w1)"
    and "respond_form cfg req2 en2 tok w1 = (page2, w2)"
  shows "\<exists>ev1 ev2.
      ok page1 \<and> decision ev1 = d1 \<and>
      load_record cfg tok w1 = Some (r\<lparr>status := d1, responses := responses r @ [ev1]\<rparr>) \<and>
      ok page2 \<and> decision ev2 = d2 \<and>
      load_record cfg tok w2 = Some (r\<lparr>status := d2, responses := responses r @ [ev1, ev2]\<rparr>) \<and>
      (responses r = [] \<longrightarrow>
         (\<exists>r2. load_record cfg tok w2 = Some r2 \<and> length (responses r2) = 2))"
proof -
  note a1 = accepted_exact [OF assms(2,3)] and a2 = accepted_exact [OF assms(4,5)]
  have p1: "ok page1" and w1: "w1 = snd (respond_form cfg req1 en1 tok w)"
    using respond_form_accepted [OF assms(1) a1(1), of en1] assms(6) by auto
  have l1: "load_record cfg tok w1 = Some (decided req1 en1 r)"
    unfolding w1 by (rule load_respond_form_accepted [OF assms(1) a1(1)])
  have p2: "ok page2" and w2: "w2 = snd (respond_form cfg req2 en2 tok w1)"
    using respond_form_accepted [OF l1 a2(1), of en2] assms(7) by auto
  have l2: "load_record cfg tok w2 = Some (decided req2 en2 (decided req1 en1 r))"
    unfolding w2 by (rule load_respond_form_accepted [OF l1 a2(1)])
  show ?thesis
  proof (rule exI [of _ "new_event req1 en1"], rule exI [of _ "new_event req2 en2"],
      intro conjI)
    show "decision (new_event req1 en1) = d1"
      by (simp add: new_event_def a1(2))
    show "decision (new_event req2 en2) = d2"
      by (simp add: new_event_def a2(2))
    show "load_record cfg tok w1 =
        Some (r\<lparr>status := d1, responses := responses r @ [new_event req1 en1]\<rparr>)"
      by (simp add: l1 decided_def a1(2))
    show l2': "load_record cfg tok w2 =
        Some (r\<lparr>status := d2,
               responses := responses r @ [new_event req1 en1, new_event req2 en2]\<rparr>)"
      by (simp add: l2 decided_def a1(2) a2(2))
    show "responses r = [] \<longrightarrow>
        (\<exists>r2. load_record cfg tok w2 = Some r2 \<and> length (responses r2) = 2)"
      by (simp add: l2')
  qed (simp_all add: p1 p2)
qed

theorem C2_decision_appended_witness:
  "ok (fst (respond_form cfg0 (respond_req0 ''rejected'' ''fine'') env0 tok0 world1)) \<and>
   ok (fst (respond_form cfg0 (respond_req0 ''approved'' []) env0 tok0
         (snd (respond_form cfg0 (respond_req0 ''rejected'' ''fine'') env0 tok0 world1)))) \<and>
   (\<exists>r2. load_record cfg0 tok0
           (snd (respond_form cfg0 (respond_req0 ''approved'' []) env0 tok0
             (snd (respond_form cfg0 (respond_req0 ''rejected'' ''fine'') env0 tok0 world1))))
          = Some r2 \<and>
         status r2 = ''approved'' \<and>
         map decision (responses r2) = [''rejected'', ''approved''])"
proof -
  have c1: "''rejected'' = ''approved'' \<or>
      ''rejected'' = ''rejected'' \<and>
      strip (form_get (respond_req0 ''rejected'' ''fine'') ''comment'') \<noteq> []"
    by (simp add: form_respond_req0 strip_examples)
  have c2: "''approved'' = ''approved'' \<or>
      ''approved'' = ''rejected'' \<and>
      strip (form_get (respond_req0 ''approved'' []) ''comment'') \<noteq> []"
    by simp
  from C2_decision_appended [OF load_world1 form_respond_req0(1) c1 form_respond_req0(1) c2
      surjective_pairing surjective_pairing, of env0 env0]
  show ?thesis by (auto simp add: rec0_def)
qed

section \<open>Refused submissions\<close>

text \<open>
  C3, as amended. For an existing record, a submission whose decision, once lowercased, is
  neither \<open>approved\<close> nor \<open>rejected\<close> is answered with \<open>Invalid decision.\<close>, and a
  submission whose lowercased decision is \<open>rejected\<close> and whose comment is empty after
  trimming is answered with \<open>Please add a comment when rejecting.\<close>; in both cases
  nothing is written: the world after the call is the world before it, so the stored record,
  its responses and its status are unchanged.
\<close>

theorem C3_invalid_input_refused:
  assumes "load_record cfg tok w = Some r"
  shows "(lower (form_get req ''decision'') \<notin> {''approved'', ''rejected''} \<longrightarrow>
           respond_form cfg req en tok w =
             (\<lparr>ok = False, message = ''Invalid decision.'', warning = None,
               page_token = tok, page_original_name = original_name r\<rparr>, w)) \<and>
         (lower (form_get req ''decision'') = ''rejected'' \<and>
          strip (form_get req ''comment'') = [] \<longrightarrow>
           respond_form cfg req en tok w =
             (\<lparr>ok = False, message = ''Please add a comment when rejecting.'', warning = None,
               page_token = tok, page_original_name = original_name r\<rparr>, w))"
  using respond_form_invalid [OF assms] respond_form_comment_required [OF assms] by simp

theorem C3_invalid_input_refused_witness:
  "respond_form cfg0 (respond_req0 ''maybe'' ''fine'') env0 tok0 world1 =
     (\<lparr>ok = False, message = ''Invalid decision.'', warning = None,
       page_token = tok0, page_original_name = ''Order 7.PDF''\<rparr>, world1) \<and>
   respond_form cfg0 (respond_req0 ''Rejected'' ''   '') env0 tok0 world1 =
     (\<lparr>ok = False, message = ''Please add a comment when rejecting.'', warning = None,
       page_token = tok0, page_original_name = ''Order 7.PDF''\<rparr>, world1)"
  using C3_invalid_input_refused [OF load_world1, of "respond_req0 ''maybe'' ''fine''" env0]
    C3_invalid_input_refused [OF load_world1, of "respond_req0 ''Rejected'' ''   ''" env0]
  by (simp add: form_respond_req0 lower_examples strip_examples rec0_def)

text \<open>
  The claim as first stated fails: \<open>APPROVED\<close> is a decision outside
  \<open>{approved, rejected}\<close>, and the submission is accepted and changes the record.
\<close>

theorem C3_uppercase_decision_counterexample:
  "load_record cfg0 tok0 world1 = Some rec0 \<and>
   form (respond_req0 ''APPROVED'' []) ''decision'' = Some ''APPROVED'' \<and>
   ''APPROVED'' \<notin> {''approved'', ''rejected''} \<and>
   ok (fst (respond_form cfg0 (respond_req0 ''APPROVED'' []) env0 tok0 world1)) \<and>
   message (fst (respond_form cfg0 (respond_req0 ''APPROVED'' []) env0 tok0 world1))
     \<noteq> ''Invalid decision.'' \<and>
   load_record cfg0 tok0 (snd (respond_form cfg0 (respond_req0 ''APPROVED'' []) env0 tok0 world1))
     \<noteq> Some rec0"
proof -
  have acc: "accepted (respond_req0 ''APPROVED'' [])"
    by (simp add: accepted_def form_respond_req0 lower_examples)
  show ?thesis
    by (simp add: respond_form_accepted [OF load_world1 acc] load_notify load_save_same
        load_world1 form_respond_req0 decided_def lower_examples rec0_def)
qed

text \<open>
  C4. When the store has no record for the token, \<open>respond_form\<close> answers that the link was
  not found whatever the request holds (a decision of any value or none, a comment of any
  value or none): the lookup comes before every check of the input. The world after the
  call is the world before it: no event is built and nothing is written or sent.
\<close>

theorem C4_unknown_token_not_found:
  assumes "load_record cfg tok w = None"
  shows "respond_form cfg req en tok w =
     (\<lparr>ok = False, message = ''This proof link was not found.'', warning = None,
       page_token = tok, page_original_name = []\<rparr>, w)"
  using assms by (rule respond_form_not_found)

theorem C4_unknown_token_not_found_witness:
  "load_record cfg0 ''ffffffffffff'' world1 = None \<and>
   respond_form cfg0 (respond_req0 ''maybe'' []) env0 ''ffffffffffff'' world1 =
     (\<lparr>ok = False, message = ''This proof link was not found.'', warning = None,
       page_token = ''ffffffffffff'', page_original_name = []\<rparr>, world1) \<and>
   respond_form cfg0 (respond_req0 ''approved'' ''fine'') env0 ''ffffffffffff'' world1 =
     (\<lparr>ok = False, message = ''This proof link was not found.'', warning = None,
       page_token = ''ffffffffffff'', page_original_name = []\<rparr>, world1)"
  using C4_unknown_token_not_found [OF load_world1_unknown] load_world1_unknown
  by simp

section \<open>Notification\<close>

text \<open>
  C5. For an accepted submission, whatever the mail channel does, the call succeeds. The
  effects it adds to the trace are the write of the updated record first and then at most
  one send, so the record is persisted before any notification is attempted, and the store
  still returns the updated record afterwards (one more response, the new status). When
  the worker does not finish within the timeout the warning says that the mail is sending in
  the background; when \<open>send_email\<close> raises, the warning names the failure; neither
  warning is empty.
\<close>

theorem C5_notification_failure_is_a_warning:
  assumes "load_record cfg tok w = Some r"
    and "lower (form_get req ''decision'') = ''approved'' \<or>
         lower (form_get req ''decision'') = ''rejected'' \<and>
         strip (form_get req ''comment'') \<noteq> []"
    and "respond_form cfg req en tok w = (page, w')"
  shows "ok page \<and>
         (\<exists>r' sends.
            load_record cfg tok w' = Some r' \<and>
            status r' = lower (form_get req ''decision'') \<and>
            length (responses r') = Suc (length (responses r)) \<and>
            trace w' = trace w @ SaveRecord (record_path cfg tok) r' # sends \<and>
            (if EMAIL_MODE cfg = ''off'' then sends = []
             else \<exists>s h t. sends = [SendEmail s h t])) \<and>
         (EMAIL_MODE cfg \<noteq> ''off'' \<and> EMAIL_MODE cfg \<noteq> ''sync'' \<and> \<not> finished_in_time en \<longrightarrow>
            warning page =
              Some (''Email is sending in background (timeout '' @ str_int (SMTP_TIMEOUT cfg)
                      @ ''s).'') \<and>
            warning page \<noteq> Some []) \<and>
         (\<forall>e. EMAIL_MODE cfg \<noteq> ''off'' \<and> (EMAIL_MODE cfg = ''sync'' \<or> finished_in_time en) \<and>
              send_email_result en = Raised e \<longrightarrow>
            warning page = Some (send_failed cfg e) \<and> warning page \<noteq> Some [])"
proof -
  from assms(2) have acc: "accepted req" by (simp add: accepted_def)
  let ?d = "lower (form_get req ''decision'')"
  let ?r = "decided req en r"
  let ?ev = "new_event req en"
  let ?n = "notify cfg req en ?r ?d ?ev (save_record cfg tok ?r w)"
  let ?sends = "if EMAIL_MODE cfg = ''off'' then []
       else [SendEmail (fst (email_body cfg req ?r ?d ?ev))
               (fst (snd (email_body cfg req ?r ?d ?ev)))
               (snd (snd (email_body cfg req ?r ?d ?ev)))]"
  from respond_form_accepted [OF assms(1) acc, of en] assms(3)
  have page: "ok page" "warning page = Some (fst ?n)" and w': "w' = snd ?n"
    by auto
  have l: "load_record cfg tok w' = Some ?r"
    unfolding w' by (simp add: load_notify load_save_same)
  have tr: "trace w' = trace w @ SaveRecord (record_path cfg tok) ?r # ?sends"
    unfolding w' by (simp add: notify_off notify_trace save_record_def)
  have persisted: "\<exists>r' sends.
            load_record cfg tok w' = Some r' \<and>
            status r' = ?d \<and>
            length (responses r') = Suc (length (responses r)) \<and>
            trace w' = trace w @ SaveRecord (record_path cfg tok) r' # sends \<and>
            (if EMAIL_MODE cfg = ''off'' then sends = []
             else \<exists>s h t. sends = [SendEmail s h t])"
    by (rule exI [of _ ?r], rule exI [of _ ?sends]) (use l tr in \<open>simp add: decided_def\<close>)
  have timeout: "EMAIL_MODE cfg \<noteq> ''off'' \<and> EMAIL_MODE cfg \<noteq> ''sync'' \<and> \<not> finished_in_time en \<longrightarrow>
            warning page =
              Some (''Email is sending in background (timeout '' @ str_int (SMTP_TIMEOUT cfg)
                      @ ''s).'') \<and>
            warning page \<noteq> Some []"
    by (simp add: page notify_timeout)
  have raised: "\<forall>e. EMAIL_MODE cfg \<noteq> ''off'' \<and> (EMAIL_MODE cfg = ''sync'' \<or> finished_in_time en) \<and>
              send_email_result en = Raised e \<longrightarrow>
            warning page = Some (send_failed cfg e) \<and> warning page \<noteq> Some []"
    by (auto simp add: page notify_raised send_failed_nonempty)
  from page(1) persisted timeout raised show ?thesis by blast
qed

theorem C5_notification_failure_is_a_warning_witness:
  "ok (fst (respond_form cfg0 reject_req0 env_slow tok0 world1)) \<and>
   warning (fst (respond_form cfg0 reject_req0 env_slow tok0 world1)) =
     Some ''Email is sending in background (timeout 10s).'' \<and>
   ok (fst (respond_form cfg0 reject_req0 env_fail tok0 world1)) \<and>
   warning (fst (respond_form cfg0 reject_req0 env_fail tok0 world1)) =
     Some ''Email send failed (smtp.example.com:587): [Errno 111] Connection refused'' \<and>
   (\<exists>r' sends.
      load_record cfg0 tok0 (snd (respond_form cfg0 reject_req0 env_slow tok0 world1)) = Some r' \<and>
      status r' = ''rejected'' \<and>
      trace (snd (respond_form cfg0 reject_req0 env_slow tok0 world1)) =
        trace world1 @ SaveRecord (record_path cfg0 tok0) r' # sends)"
proof -
  have acc: "lower (form_get reject_req0 ''decision'') = ''approved'' \<or>
         lower (form_get reject_req0 ''decision'') = ''rejected'' \<and>
         strip (form_get reject_req0 ''comment'') \<noteq> []"
    using accepted_reject_req0 by (simp add: accepted_def)
  have d: "lower (form_get reject_req0 ''decision'') = ''rejected''"
    by (simp add: reject_req0_def form_respond_req0 lower_examples)
  from C5_notification_failure_is_a_warning [OF load_world1 acc surjective_pairing, of env_slow]
    C5_notification_failure_is_a_warning [OF load_world1 acc surjective_pairing, of env_fail]
  show ?thesis
    by (simp add: d cfg0_def env_slow_def env_fail_def env0_def send_failed_def
        str_int_examples) blast
qed

text \<open>
  C8. With \<open>EMAIL_MODE\<close> set to \<open>off\<close>, every accepted submission succeeds with the empty
  warning, and the only effect it adds to the trace is the write of the record: no send is
  attempted.
\<close>

theorem C8_disabled_mode_sends_nothing:
  assumes "load_record cfg tok w = Some r"
    and "lower (form_get req ''decision'') = ''approved'' \<or>
         lower (form_get req ''decision'') = ''rejected'' \<and>
         strip (form_get req ''comment'') \<noteq> []"
    and "EMAIL_MODE cfg = ''off''"
    and "respond_form cfg req en tok w = (page, w')"
  shows "ok page \<and> warning page = Some [] \<and>
         (\<exists>r'. trace w' = trace w @ [SaveRecord (record_path cfg tok) r'])"
proof -
  from assms(2) have acc: "accepted req" by (simp add: accepted_def)
  from respond_form_accepted [OF assms(1) acc, of en] assms(3,4)
  show ?thesis by (auto simp add: notify_off save_record_def)
qed

theorem C8_disabled_mode_sends_nothing_witness:
  "EMAIL_MODE cfg_off = ''off'' \<and>
   ok (fst (respond_form cfg_off reject_req0 env_fail tok0 world1)) \<and>
   warning (fst (respond_form cfg_off reject_req0 env_fail tok0 world1)) = Some [] \<and>
   (\<exists>r'. trace (snd (respond_form cfg_off reject_req0 env_fail tok0 world1)) =
           trace world1 @ [SaveRecord (record_path cfg_off tok0) r'])"
proof -
  have acc: "lower (form_get reject_req0 ''decision'') = ''approved'' \<or>
         lower (form_get reject_req0 ''decision'') = ''rejected'' \<and>
         strip (form_get reject_req0 ''comment'') \<noteq> []"
    using accepted_reject_req0 by (simp add: accepted_def)
  have off: "EMAIL_MODE cfg_off = ''off''"
    by (simp add: cfg_off_def)
  from C8_disabled_mode_sends_nothing [OF load_world1_off acc off surjective_pairing, of env_fail] off
  show ?thesis by simp
qed

section \<open>Case of the decision\<close>

text \<open>
  C9. For an existing record, a submission is accepted exactly when its decision, once
  lowercased, is \<open>approved\<close>, or is \<open>rejected\<close> with a comment that is not empty after
  trimming; so \<open>APPROVED\<close> and \<open>Rejected\<close> are accepted. The decision of the stored
  event and the status of the record are then the lowercased decision, one of \<open>approved\<close>
  and \<open>rejected\<close>, whatever the case of the submitted string.
\<close>

theorem C9_decision_case_insensitive:
  assumes "load_record cfg tok w = Some r"
    and "respond_form cfg req en tok w = (page, w')"
  shows "(ok page \<longleftrightarrow>
            lower (form_get req ''decision'') = ''approved'' \<or>
            lower (form_get req ''decision'') = ''rejected'' \<and>
            strip (form_get req ''comment'') \<noteq> []) \<and>
         (ok page \<longrightarrow>
            (\<exists>ev. load_record cfg tok w' =
                    Some (r\<lparr>status := lower (form_get req ''decision''),
                            responses := responses r @ [ev]\<rparr>) \<and>
                  decision ev = lower (form_get req ''decision'') \<and>
                  lower (form_get req ''decision'') \<in> {''approved'', ''rejected''}))"
proof (cases "accepted req")
  case True
  have w': "w' = snd (respond_form cfg req en tok w)" and "ok page"
    using respond_form_accepted [OF assms(1) True, of en] assms(2) by auto
  moreover have "load_record cfg tok w' = Some (decided req en r)"
    unfolding w' by (rule load_respond_form_accepted [OF assms(1) True])
  moreover have "decision (new_event req en) = lower (form_get req ''decision'')"
    by (simp add: new_event_def)
  ultimately show ?thesis using True
    by (auto simp add: accepted_def decided_def)
next
  case False
  then have "\<not> ok page"
    using respond_form_refused [OF assms(1), of req en] assms(2) by simp
  with False show ?thesis by (auto simp add: accepted_def)
qed

theorem C9_decision_case_insensitive_witness:
  "ok (fst (respond_form cfg0 (respond_req0 ''APPROVED'' []) env0 tok0 world1)) \<and>
   (\<exists>ev. load_record cfg0 tok0
            (snd (respond_form cfg0 (respond_req0 ''APPROVED'' []) env0 tok0 world1)) =
          Some (rec0\<lparr>status := ''approved'', responses := [ev]\<rparr>) \<and>
        decision ev = ''approved'') \<and>
   ok (fst (respond_form cfg0 (respond_req0 ''Rejected'' ''fine'') env0 tok0 world1)) \<and>
   (\<exists>ev. load_record cfg0 tok0
            (snd (respond_form cfg0 (respond_req0 ''Rejected'' ''fine'') env0 tok0 world1)) =
          Some (rec0\<lparr>status := ''rejected'', responses := [ev]\<rparr>) \<and>
        decision ev = ''rejected'')"
  using
    C9_decision_case_insensitive [OF load_world1 surjective_pairing,
      of "respond_req0 ''APPROVED'' []" env0]
    C9_decision_case_insensitive [OF load_world1 surjective_pairing,
      of "respond_req0 ''Rejected'' ''fine''" env0]
  by (simp add: form_respond_req0 lower_examples strip_examples rec0_def)

end
